theory Spec2Isabelle
  imports Complex_Main
begin

section \<open>JavaScript values and plain objects\<close>

text \<open>
  A document is a JavaScript object. Its own properties are kept as an association list
  in insertion order, the order in which JavaScript enumerates the keys that are not
  array indices. Every
  object carries its class, so that a \<open>Date\<close> or an array met where a record is
  expected can still receive a property, as it does in JavaScript. A finite number is
  kept as the real number it denotes (so \<open>-0\<close> is \<open>0\<close>); the code under study only ever
  asks whether a value is truthy, and the numbers it produces itself are integers.

  A read \<open>obj[k]\<close> sees the own property first and then what every object inherits
  from \<open>Object.prototype\<close> (\<open>constructor\<close>, \<open>toString\<close>, ...): such a member is a function
  or an object of the platform, hence truthy. Members that only strings, arrays, dates or
  other classes have are not modelled. An update expression is a tree (its \<open>$set\<close> record
  is not the expression itself, nor shared with another key).
\<close>

datatype objclass = PlainObject | DateObject int | ArrayObject | OtherObject string | Builtin

datatype jsval =
    JUndefined
  | JNull
  | JBool bool
  | JNum real
  | JNaN
  | JInfinity bool
  | JStr string
  | JObj objclass "(string \<times> jsval) list"

type_synonym document = "(string \<times> jsval) list"

text \<open>\<open>!v\<close> is \<open>\<not> truthy v\<close>: \<open>undefined\<close>, \<open>null\<close>, \<open>false\<close>, \<open>0\<close>, \<open>NaN\<close> and
  the empty string are falsy, every object is truthy.\<close>

fun truthy :: "jsval \<Rightarrow> bool" where
  "truthy JUndefined = False"
| "truthy JNull = False"
| "truthy (JBool b) = b"
| "truthy (JNum x) = (x \<noteq> 0)"
| "truthy JNaN = False"
| "truthy (JInfinity positive) = True"
| "truthy (JStr s) = (s \<noteq> [])"
| "truthy (JObj c ps) = True"

text \<open>The names of the properties of \<open>Object.prototype\<close>.\<close>

definition Object_prototype :: "string list" where
  "Object_prototype =
     [''constructor'', ''__defineGetter__'', ''__defineSetter__'', ''hasOwnProperty'',
      ''__lookupGetter__'', ''__lookupSetter__'', ''isPrototypeOf'', ''propertyIsEnumerable'',
      ''toString'', ''valueOf'', ''__proto__'', ''toLocaleString'']"

text \<open>What a read finds when the object has no own property of that name.\<close>

definition inherited :: "string \<Rightarrow> jsval" where
  "inherited k = (if k \<in> set Object_prototype then JObj Builtin [] else JUndefined)"

text \<open>\<open>obj[k]\<close> as an expression, for an object with the own properties \<open>ps\<close>.\<close>

definition prop_get :: "document \<Rightarrow> string \<Rightarrow> jsval" where
  "prop_get ps k = (case map_of ps k of None \<Rightarrow> inherited k | Some v \<Rightarrow> v)"

text \<open>\<open>v[k]\<close> for any value that is not \<open>undefined\<close> or \<open>null\<close>: a primitive is boxed for
  the read and inherits from \<open>Object.prototype\<close> as well.\<close>

fun member :: "jsval \<Rightarrow> string \<Rightarrow> jsval" where
  "member (JObj c ps) k = prop_get ps k"
| "member v k = inherited k"

text \<open>\<open>obj[k] = v\<close>: an existing key keeps its place, a new key goes last.\<close>

fun prop_set :: "string \<Rightarrow> jsval \<Rightarrow> document \<Rightarrow> document" where
  "prop_set k v [] = [(k, v)]"
| "prop_set k v (p # ps) = (if fst p = k then (k, v) # ps else p # prop_set k v ps)"

section \<open>Configuration\<close>

datatype format = ISODate | Millis | Unix | Date | Utc

record fields =
  createdAt :: "string option"
  updatedAt :: "string option"

text \<open>A database handle of the driver: the client it came from (\<open>None\<close> for the
  package's shared connection) and its name.\<close>

record Db =
  db_client :: "nat option"
  databaseName :: string

text \<open>\<open>database: string | Db\<close>; at run time the slot can hold anything else as well.\<close>

datatype database_ref = DbName string | DbInstance Db | NotADatabase

record CollectionConfig =
  name :: string
  database :: database_ref
  client :: "nat option"
  timestamps :: "bool option"
  timestampsFormat :: "format option"
  timestampsFields :: "fields option"

text \<open>What can be thrown: the two errors of this class, the \<open>TypeError\<close> of the language,
  and whatever the driver throws (its error classes are not told apart).\<close>

datatype error = MongoError string | Error string | TypeError | DriverError string

text \<open>The spec's names for the two errors the configuration can raise.\<close>

abbreviation ConfigurationError :: error where
  "ConfigurationError \<equiv> MongoError ''The getConfig() method is not implemented in the child class''"

abbreviation TypeMismatchError :: error where
  "TypeMismatchError \<equiv> Error ''Invalid typeof database name''"

text \<open>
  \<open>_getConfig\<close> (Isabelle names cannot start with an underscore). The argument is
  \<open>this.prototype.getConfig\<close>: \<open>None\<close> when the child class does not implement it,
  otherwise the configuration it returns, the same one at every call.
\<close>

definition getConfig' :: "CollectionConfig option \<Rightarrow> error + CollectionConfig" where
  "getConfig' getConfig =
     (case getConfig of
        None \<Rightarrow> Inl ConfigurationError
      | Some config \<Rightarrow> Inr config)"

definition getCollectionName :: "CollectionConfig option \<Rightarrow> error + string" where
  "getCollectionName getConfig =
     (case getConfig' getConfig of Inl e \<Rightarrow> Inl e | Inr config \<Rightarrow> Inr (name config))"

definition getDbName :: "CollectionConfig option \<Rightarrow> error + string" where
  "getDbName getConfig =
     (case getConfig' getConfig of
        Inl e \<Rightarrow> Inl e
      | Inr config \<Rightarrow>
          (case database config of
             DbName s \<Rightarrow> Inr s
           | DbInstance db \<Rightarrow> Inr (databaseName db)
           | NotADatabase \<Rightarrow> Inl TypeMismatchError))"

record Collection =
  db :: Db
  collectionName :: string

text \<open>
  The driver is not part of this package, and \<open>MongoDB.db\<close> comes from the package's
  \<open>./index\<close>, which is not among the sources: the three calls that resolve a collection
  are parameters. Each may throw.
\<close>

record driver =
  client_db :: "nat \<Rightarrow> string \<Rightarrow> error + Db"
  MongoDB_db :: "string \<Rightarrow> error + Db"
  db_collection :: "Db \<Rightarrow> string \<Rightarrow> error + Collection"

text \<open>\<open>getDb\<close>: through the configured client when there is one, through \<open>MongoDB.db\<close>
  otherwise; the name is resolved before the call.\<close>

definition getDb :: "driver \<Rightarrow> CollectionConfig option \<Rightarrow> error + Db" where
  "getDb drv getConfig =
     (case getConfig' getConfig of
        Inl e \<Rightarrow> Inl e
      | Inr config \<Rightarrow>
          (case client config of
             Some c \<Rightarrow>
               (case getDbName getConfig of
                  Inl e \<Rightarrow> Inl e
                | Inr s \<Rightarrow> client_db drv c s)
           | None \<Rightarrow>
               (case getDbName getConfig of
                  Inl e \<Rightarrow> Inl e
                | Inr s \<Rightarrow> MongoDB_db drv s)))"

definition getCollection :: "driver \<Rightarrow> CollectionConfig option \<Rightarrow> error + Collection" where
  "getCollection drv getConfig =
     (case getDb drv getConfig of
        Inl e \<Rightarrow> Inl e
      | Inr d \<Rightarrow>
          (case getCollectionName getConfig of
             Inl e \<Rightarrow> Inl e
           | Inr s \<Rightarrow> db_collection drv d s))"

subsection \<open>A driver for the examples\<close>

text \<open>
  The name checks of the driver this package depends on (mongodb 4.12.1):
  \<open>client.db(name)\<close> takes the client's default database for an empty name and refuses
  a name with a blank, dot, dollar, slash or backslash in it; \<open>db.collection(name)\<close>
  refuses an empty name, two dots in a row, a dollar (but for \<open>$cmd...\<close> and
  \<open>oplog.$main\<close>), a dot at either end and a null character. Every client is taken to have
  been connected without a database in its connection string, so that its default
  database is \<open>test\<close>, and \<open>MongoDB.db\<close> to go through a client of its own.
\<close>

fun starts_with :: "string \<Rightarrow> string \<Rightarrow> bool" where
  "starts_with s [] = True"
| "starts_with [] (c # cs) = False"
| "starts_with (x # xs) (c # cs) = (x = c \<and> starts_with xs cs)"

fun includes_string :: "string \<Rightarrow> string \<Rightarrow> bool" where
  "includes_string [] sub = (sub = [])"
| "includes_string (x # xs) sub = (starts_with (x # xs) sub \<or> includes_string xs sub)"

definition validateDatabaseName :: "string \<Rightarrow> error option" where
  "validateDatabaseName s =
     (if s = [] then Some (DriverError ''Database name cannot be the empty string'')
      else if s = ''$external'' then None
      else (case find (\<lambda>c. c \<in> set s)
                   [CHR '' '', CHR ''.'', CHR ''$'', CHR ''/'', CHR 0x5C] of
              Some c \<Rightarrow> Some (DriverError (''database names cannot contain the character '' @ [c]))
            | None \<Rightarrow> None))"

definition checkCollectionName :: "string \<Rightarrow> error option" where
  "checkCollectionName s =
     (if s = [] \<or> includes_string s ''..''
      then Some (DriverError ''Collection names cannot be empty'')
      else if CHR ''$'' \<in> set s
              \<and> \<not> (starts_with s ''$cmd''
                     \<or> includes_string s ''oplog.$main'')
      then Some (DriverError ''Collection names must not contain $'')
      else if hd s = CHR ''.'' \<or> last s = CHR ''.''
      then Some (DriverError ''Collection names must not start or end with .'')
      else if CHR 0x00 \<in> set s
      then Some (DriverError ''Collection names cannot contain a null character'')
      else None)"

definition mongodb_client_db :: "nat option \<Rightarrow> string \<Rightarrow> error + Db" where
  "mongodb_client_db c dbName =
     (let s = (if dbName = [] then ''test'' else dbName)
      in case validateDatabaseName s of
           Some e \<Rightarrow> Inl e
         | None \<Rightarrow> Inr \<lparr>db_client = c, databaseName = s\<rparr>)"

definition mongodb_db_collection :: "Db \<Rightarrow> string \<Rightarrow> error + Collection" where
  "mongodb_db_collection d s =
     (case checkCollectionName s of
        Some e \<Rightarrow> Inl e
      | None \<Rightarrow> Inr \<lparr>db = d, collectionName = s\<rparr>)"

definition mongodb :: driver where
  "mongodb =
     \<lparr>client_db = (\<lambda>c. mongodb_client_db (Some c)),
      MongoDB_db = mongodb_client_db None,
      db_collection = mongodb_db_collection\<rparr>"

section \<open>The platform's \<open>Date\<close>\<close>

text \<open>
  A \<open>Date\<close> made by \<open>new Date()\<close> holds a time value, an integer number of milliseconds
  since the epoch. \<open>toISOString\<close> and \<open>toUTCString\<close> are built into the platform; they
  are written out here from the ECMAScript language specification (ECMA-262, "Date
  Objects": Day, DayFromYear, YearFromTime, MonthFromTime, DateFromTime, WeekDay,
  HourFromTime, ..., Date.prototype.toISOString, Date.prototype.toUTCString), with the
  same names. Integer \<open>div\<close> and \<open>mod\<close> of HOL round towards minus infinity, as the
  specification's \<open>floor\<close> and \<open>modulo\<close> do.
\<close>

definition msPerDay :: int where "msPerDay = 86400000"

definition Day :: "int \<Rightarrow> int" where
  "Day t = t div msPerDay"

definition DaysInYear :: "int \<Rightarrow> int" where
  "DaysInYear y =
     (if y mod 4 \<noteq> 0 then 365
      else if y mod 100 \<noteq> 0 then 366
      else if y mod 400 \<noteq> 0 then 365
      else 366)"

definition DayFromYear :: "int \<Rightarrow> int" where
  "DayFromYear y =
     365 * (y - 1970) + (y - 1969) div 4 - (y - 1901) div 100 + (y - 1601) div 400"

text \<open>
  ECMA-262 gives the year as the largest \<open>y\<close> with \<open>TimeFromYear y \<le> t\<close>. It is
  computed here from the mean length of a Gregorian year (146097 days in 400 years),
  which is off by at most one year, and then put right; \<open>YearFromDay_largest\<close> below
  proves that this is the year of the specification.
\<close>

definition YearFromDay :: "int \<Rightarrow> int" where
  "YearFromDay d =
     (let y = 1970 + (400 * d) div 146097
      in if d < DayFromYear y then y - 1
         else if DayFromYear (y + 1) \<le> d then y + 1
         else y)"

definition YearFromTime :: "int \<Rightarrow> int" where
  "YearFromTime t = YearFromDay (Day t)"

definition InLeapYear :: "int \<Rightarrow> int" where
  "InLeapYear t = (if DaysInYear (YearFromTime t) = 365 then 0 else 1)"

definition DayWithinYear :: "int \<Rightarrow> int" where
  "DayWithinYear t = Day t - DayFromYear (YearFromTime t)"

definition MonthFromTime :: "int \<Rightarrow> int" where
  "MonthFromTime t =
     (let d = DayWithinYear t; leap = InLeapYear t
      in if d < 31 then 0
         else if d < 59 + leap then 1
         else if d < 90 + leap then 2
         else if d < 120 + leap then 3
         else if d < 151 + leap then 4
         else if d < 181 + leap then 5
         else if d < 212 + leap then 6
         else if d < 243 + leap then 7
         else if d < 273 + leap then 8
         else if d < 304 + leap then 9
         else if d < 334 + leap then 10
         else 11)"

definition DateFromTime :: "int \<Rightarrow> int" where
  "DateFromTime t =
     (let d = DayWithinYear t; leap = InLeapYear t; m = MonthFromTime t
      in if m = 0 then d + 1
         else if m = 1 then d - 30
         else if m = 2 then d - 58 - leap
         else if m = 3 then d - 89 - leap
         else if m = 4 then d - 119 - leap
         else if m = 5 then d - 150 - leap
         else if m = 6 then d - 180 - leap
         else if m = 7 then d - 211 - leap
         else if m = 8 then d - 242 - leap
         else if m = 9 then d - 272 - leap
         else if m = 10 then d - 303 - leap
         else d - 333 - leap)"

definition WeekDay :: "int \<Rightarrow> int" where
  "WeekDay t = (Day t + 4) mod 7"

definition HourFromTime :: "int \<Rightarrow> int" where
  "HourFromTime t = (t div 3600000) mod 24"

definition MinFromTime :: "int \<Rightarrow> int" where
  "MinFromTime t = (t div 60000) mod 60"

definition SecFromTime :: "int \<Rightarrow> int" where
  "SecFromTime t = (t div 1000) mod 60"

definition msFromTime :: "int \<Rightarrow> int" where
  "msFromTime t = t mod 1000"

text \<open>Decimal digits, most significant first, of a number that is not negative; at
  least \<open>w\<close> of them (ToZeroPaddedDecimalString).\<close>

definition digit :: "int \<Rightarrow> char" where
  "digit k = ''0123456789'' ! nat (k mod 10)"

fun padded :: "nat \<Rightarrow> int \<Rightarrow> string" where
  "padded 0 k = (if k \<le> 0 then [] else padded 0 (k div 10) @ [digit k])"
| "padded (Suc w) k = padded w (k div 10) @ [digit k]"

definition weekday_name :: "int \<Rightarrow> string" where
  "weekday_name k = [''Sun'', ''Mon'', ''Tue'', ''Wed'', ''Thu'', ''Fri'', ''Sat''] ! nat k"

definition month_name :: "int \<Rightarrow> string" where
  "month_name k =
     [''Jan'', ''Feb'', ''Mar'', ''Apr'', ''May'', ''Jun'',
      ''Jul'', ''Aug'', ''Sep'', ''Oct'', ''Nov'', ''Dec''] ! nat k"

text \<open>\<open>YYYY-MM-DDTHH:mm:ss.sssZ\<close>; a year outside 0..9999 is written with a sign and
  six digits.\<close>

definition toISOString :: "int \<Rightarrow> string" where
  "toISOString t =
     (let y = YearFromTime t
      in (if 0 \<le> y \<and> y \<le> 9999 then padded 4 y
          else (if y < 0 then ''-'' else ''+'') @ padded 6 \<bar>y\<bar>)
         @ ''-'' @ padded 2 (MonthFromTime t + 1)
         @ ''-'' @ padded 2 (DateFromTime t)
         @ ''T'' @ padded 2 (HourFromTime t)
         @ '':'' @ padded 2 (MinFromTime t)
         @ '':'' @ padded 2 (SecFromTime t)
         @ ''.'' @ padded 3 (msFromTime t)
         @ ''Z'')"

text \<open>\<open>Www, DD Mon YYYY HH:mm:ss GMT\<close>.\<close>

definition toUTCString :: "int \<Rightarrow> string" where
  "toUTCString t =
     (let y = YearFromTime t
      in weekday_name (WeekDay t)
         @ '', '' @ padded 2 (DateFromTime t)
         @ '' '' @ month_name (MonthFromTime t)
         @ '' '' @ (if 0 \<le> y then [] else ''-'') @ padded 4 \<bar>y\<bar>
         @ '' '' @ padded 2 (HourFromTime t)
         @ '':'' @ padded 2 (MinFromTime t)
         @ '':'' @ padded 2 (SecFromTime t)
         @ '' GMT'')"

text \<open>
  Reading the fields back. \<open>MakeDay\<close>, \<open>MakeTime\<close> and \<open>MakeDate\<close> are the
  specification's way from the fields of a date to its time value (\<open>MonthStart\<close> is the
  day within the year on which a month begins), and \<open>Date_parse\<close> and \<open>UTC_parse\<close> read
  the two string formats, for years of four digits. They serve to state that the strings
  determine the instant.
\<close>

definition MonthStart :: "int \<Rightarrow> int \<Rightarrow> int" where
  "MonthStart leap m =
     (if m = 0 then 0
      else if m = 1 then 31
      else if m = 2 then 59 + leap
      else if m = 3 then 90 + leap
      else if m = 4 then 120 + leap
      else if m = 5 then 151 + leap
      else if m = 6 then 181 + leap
      else if m = 7 then 212 + leap
      else if m = 8 then 243 + leap
      else if m = 9 then 273 + leap
      else if m = 10 then 304 + leap
      else 334 + leap)"

definition MakeDay :: "int \<Rightarrow> int \<Rightarrow> int \<Rightarrow> int" where
  "MakeDay y m dt = DayFromYear y + MonthStart (DaysInYear y - 365) m + dt - 1"

definition MakeTime :: "int \<Rightarrow> int \<Rightarrow> int \<Rightarrow> int \<Rightarrow> int" where
  "MakeTime h m s ms = h * 3600000 + m * 60000 + s * 1000 + ms"

definition MakeDate :: "int \<Rightarrow> int \<Rightarrow> int" where
  "MakeDate day time = day * msPerDay + time"

definition digit_value :: "char \<Rightarrow> int" where
  "digit_value c = int (of_char c) - 48"

definition is_digit :: "char \<Rightarrow> bool" where
  "is_digit c = (48 \<le> (of_char c :: nat) \<and> (of_char c :: nat) \<le> 57)"

fun number_from :: "int \<Rightarrow> string \<Rightarrow> int" where
  "number_from a [] = a"
| "number_from a (c # cs) = number_from (10 * a + digit_value c) cs"

definition number_of :: "string \<Rightarrow> int" where
  "number_of s = number_from 0 s"

definition Date_parse :: "string \<Rightarrow> int option" where
  "Date_parse s =
     (if length s = 24
         \<and> list_all is_digit (take 4 s) \<and> s ! 4 = CHR ''-''
         \<and> list_all is_digit (take 2 (drop 5 s)) \<and> s ! 7 = CHR ''-''
         \<and> list_all is_digit (take 2 (drop 8 s)) \<and> s ! 10 = CHR ''T''
         \<and> list_all is_digit (take 2 (drop 11 s)) \<and> s ! 13 = CHR '':''
         \<and> list_all is_digit (take 2 (drop 14 s)) \<and> s ! 16 = CHR '':''
         \<and> list_all is_digit (take 2 (drop 17 s)) \<and> s ! 19 = CHR ''.''
         \<and> list_all is_digit (take 3 (drop 20 s)) \<and> s ! 23 = CHR ''Z''
      then Some (MakeDate
                  (MakeDay (number_of (take 4 s))
                           (number_of (take 2 (drop 5 s)) - 1)
                           (number_of (take 2 (drop 8 s))))
                  (MakeTime (number_of (take 2 (drop 11 s)))
                            (number_of (take 2 (drop 14 s)))
                            (number_of (take 2 (drop 17 s)))
                            (number_of (take 3 (drop 20 s)))))
      else None)"

definition month_number :: "string \<Rightarrow> int option" where
  "month_number s =
     (if s = ''Jan'' then Some 0
      else if s = ''Feb'' then Some 1
      else if s = ''Mar'' then Some 2
      else if s = ''Apr'' then Some 3
      else if s = ''May'' then Some 4
      else if s = ''Jun'' then Some 5
      else if s = ''Jul'' then Some 6
      else if s = ''Aug'' then Some 7
      else if s = ''Sep'' then Some 8
      else if s = ''Oct'' then Some 9
      else if s = ''Nov'' then Some 10
      else if s = ''Dec'' then Some 11
      else None)"

definition UTC_parse :: "string \<Rightarrow> int option" where
  "UTC_parse s =
     (if length s = 29
         \<and> take 2 (drop 3 s) = '', ''
         \<and> list_all is_digit (take 2 (drop 5 s)) \<and> s ! 7 = CHR '' ''
         \<and> s ! 11 = CHR '' ''
         \<and> list_all is_digit (take 4 (drop 12 s)) \<and> s ! 16 = CHR '' ''
         \<and> list_all is_digit (take 2 (drop 17 s)) \<and> s ! 19 = CHR '':''
         \<and> list_all is_digit (take 2 (drop 20 s)) \<and> s ! 22 = CHR '':''
         \<and> list_all is_digit (take 2 (drop 23 s)) \<and> drop 25 s = '' GMT''
      then (case month_number (take 3 (drop 8 s)) of
              None \<Rightarrow> None
            | Some m \<Rightarrow>
                (let t = MakeDate
                           (MakeDay (number_of (take 4 (drop 12 s))) m
                                    (number_of (take 2 (drop 5 s))))
                           (MakeTime (number_of (take 2 (drop 17 s)))
                                     (number_of (take 2 (drop 20 s)))
                                     (number_of (take 2 (drop 23 s))) 0)
                 in if weekday_name (WeekDay t) = take 3 s then Some t else None))
      else None)"

text \<open>
  The wall clock: \<open>new Date()\<close> reads it. The state of a run is the number of readings
  taken so far; \<open>clock k\<close> is the time value the \<open>k\<close>-th reading gives.
\<close>

type_synonym clock = "nat \<Rightarrow> int"

definition new_Date :: "clock \<Rightarrow> nat \<Rightarrow> int \<times> nat" where
  "new_Date clock n = (clock n, Suc n)"

section \<open>The timestamp policy\<close>

text \<open>
  \<open>_formatDate\<close>. \<open>date.getTime()\<close> is the time value; \<open>Math.floor(date.getTime() / 1000)\<close>
  is written with the division and the floor of the real numbers, which a \<open>Date\<close>'s time
  value divided by 1000 agrees with in floating point.
\<close>

fun formatDate :: "int \<Rightarrow> format \<Rightarrow> jsval" where
  "formatDate date ISODate = JStr (toISOString date)"
| "formatDate date Date = JObj (DateObject date) []"
| "formatDate date Unix = JNum (of_int \<lfloor>real_of_int date / 1000\<rfloor>)"
| "formatDate date Millis = JNum (of_int date)"
| "formatDate date Utc = JStr (toUTCString date)"

text \<open>
  \<open>_updateTimestamps\<close>. The document is changed in place and returned; here the
  changed document is the result. The module is strict code, so the assignment
  \<open>document['$set'][f] = v\<close> throws a \<open>TypeError\<close> when \<open>document['$set']\<close> is a
  truthy primitive; the assignment is reached only when the read before it was falsy.
\<close>

text \<open>\<open>this._getConfig().timestampsFormat || 'Millis'\<close>\<close>

definition resolved_format :: "CollectionConfig \<Rightarrow> format" where
  "resolved_format config =
     (case timestampsFormat config of None \<Rightarrow> Millis | Some f \<Rightarrow> f)"

text \<open>\<open>this._getConfig().timestampsFields || { createdAt: 'createdAt', updatedAt: 'updatedAt' }\<close>\<close>

definition resolved_fields :: "CollectionConfig \<Rightarrow> fields" where
  "resolved_fields config =
     (case timestampsFields config of
        None \<Rightarrow> \<lparr>createdAt = Some ''createdAt'', updatedAt = Some ''updatedAt''\<rparr>
      | Some f \<Rightarrow> f)"

definition updateTimestamps ::
  "clock \<Rightarrow> CollectionConfig option \<Rightarrow> document \<Rightarrow> bool \<Rightarrow> nat \<Rightarrow> (error + document) \<times> nat" where
  "updateTimestamps clock getConfig document isInsert n =
     (case getConfig' getConfig of
        Inl e \<Rightarrow> (Inl e, n)
      | Inr config \<Rightarrow>
          if timestamps config = Some True then
            (let format = resolved_format config;
                 (date, n') = new_Date clock n;
                 formattedDate = formatDate date format;
                 flds = resolved_fields config;
                 document1 =
                   (case createdAt flds of
                      None \<Rightarrow> document
                    | Some c \<Rightarrow>
                        if isInsert \<and> c \<noteq> [] \<and> \<not> truthy (prop_get document c)
                        then prop_set c formattedDate document
                        else document);
                 document2 =
                   (case updatedAt flds of
                      None \<Rightarrow> document1
                    | Some u \<Rightarrow>
                        if isInsert \<and> u \<noteq> [] \<and> \<not> truthy (prop_get document1 u)
                        then prop_set u formattedDate document1
                        else document1)
             in (case updatedAt flds of
                   None \<Rightarrow> (Inr document2, n')
                 | Some u \<Rightarrow>
                     if \<not> isInsert \<and> u \<noteq> [] then
                       (let document3 =
                              (if \<not> truthy (prop_get document2 ''$set'')
                               then prop_set ''$set'' (JObj PlainObject []) document2
                               else document2);
                            s = prop_get document3 ''$set''
                        in if \<not> truthy (member s u) then
                             (case s of
                                JObj c ps \<Rightarrow>
                                  (Inr (prop_set ''$set''
                                          (JObj c (prop_set u formattedDate ps)) document3), n')
                              | _ \<Rightarrow> (Inl TypeError, n'))
                           else (Inr document3, n'))
                     else (Inr document2, n')))
          else (Inr document, n))"

section \<open>insertMany\<close>

text \<open>
  The documents handed to \<open>insertMany\<close> are objects of the caller's, and the policy
  writes into them: the same object may stand twice in the list. So here a document is a
  reference into a heap of documents, a call of the policy on a reference replaces the
  document stored there, and \<open>documents.map(...)\<close> runs the calls from left to right,
  each with its own reading of the clock.
\<close>

type_synonym ref = nat
type_synonym heap = "ref \<Rightarrow> document"

definition updateTimestamps_at ::
  "clock \<Rightarrow> CollectionConfig option \<Rightarrow> ref \<Rightarrow> bool \<Rightarrow> heap \<Rightarrow> nat \<Rightarrow> (error + ref) \<times> heap \<times> nat" where
  "updateTimestamps_at clock getConfig r isInsert h n =
     (case updateTimestamps clock getConfig (h r) isInsert n of
        (Inl e, n') \<Rightarrow> (Inl e, h, n')
      | (Inr d, n') \<Rightarrow> (Inr r, h(r := d), n'))"

fun map_updateTimestamps ::
  "clock \<Rightarrow> CollectionConfig option \<Rightarrow> ref list \<Rightarrow> heap \<Rightarrow> nat \<Rightarrow> (error + ref list) \<times> heap \<times> nat" where
  "map_updateTimestamps clock getConfig [] h n = (Inr [], h, n)"
| "map_updateTimestamps clock getConfig (r # rs) h n =
     (case updateTimestamps_at clock getConfig r True h n of
        (Inl e, h', n') \<Rightarrow> (Inl e, h', n')
      | (Inr r', h', n') \<Rightarrow>
          (case map_updateTimestamps clock getConfig rs h' n' of
             (Inl e, h'', n'') \<Rightarrow> (Inl e, h'', n'')
           | (Inr rs', h'', n'') \<Rightarrow> (Inr (r' # rs'), h'', n'')))"

text \<open>What reaches the driver: \<open>collection.insertMany(newDocuments, options)\<close>. The
  collection is resolved after the documents have been stamped.\<close>

datatype 'o driver_call = InsertManyCall Collection "ref list" 'o

definition insertMany ::
  "clock \<Rightarrow> driver \<Rightarrow> CollectionConfig option \<Rightarrow> ref list \<Rightarrow> 'o \<Rightarrow> heap \<Rightarrow> nat
     \<Rightarrow> (error + 'o driver_call) \<times> heap \<times> nat" where
  "insertMany clock drv getConfig documents options h n =
     (case map_updateTimestamps clock getConfig documents h n of
        (Inl e, h', n') \<Rightarrow> (Inl e, h', n')
      | (Inr newDocuments, h', n') \<Rightarrow>
          (case getCollection drv getConfig of
             Inl e \<Rightarrow> (Inl e, h', n')
           | Inr collection \<Rightarrow> (Inr (InsertManyCall collection newDocuments options), h', n')))"

text \<open>The configuration of the class documentation's example (\<open>Reservations\<close>), with the
  timestamps switched on, and a clock that stands still.\<close>

definition reservations :: CollectionConfig where
  "reservations =
     \<lparr>name = ''reservations'', database = DbName ''example'', client = None,
      timestamps = Some True, timestampsFormat = None, timestampsFields = None\<rparr>"

definition frozen :: "int \<Rightarrow> clock" where
  "frozen t k = t"

definition ticking :: "int \<Rightarrow> clock" where
  "ticking t k = t + int k"

text \<open>A heap in which every document is still empty.\<close>

definition blank :: heap where
  "blank r = []"

text \<open>How many times one call of the policy reads the clock under a configuration.\<close>

definition readings :: "CollectionConfig \<Rightarrow> nat" where
  "readings config = (if timestamps config = Some True then 1 else 0)"

text \<open>The value an update expression holds for a key under \<open>$set\<close>, if any.\<close>

definition set_record :: "document \<Rightarrow> string \<Rightarrow> jsval option" where
  "set_record d k =
     (case map_of d ''$set'' of Some (JObj c ps) \<Rightarrow> map_of ps k | _ \<Rightarrow> None)"

section \<open>Properties of the object operations\<close>

lemma map_of_prop_set: "map_of (prop_set k v ps) = (map_of ps)(k \<mapsto> v)"
  by (induction ps) auto

lemma prop_get_prop_set:
  "prop_get (prop_set k v ps) k' = (if k' = k then v else prop_get ps k')"
  by (simp add: prop_get_def map_of_prop_set)

lemma prop_set_same: "map_of ps k = Some v \<Longrightarrow> prop_set k v ps = ps"
  by (induction ps) (auto split: if_splits)

lemma prop_set_twice: "prop_set k v (prop_set k v' ps) = prop_set k v ps"
  by (induction ps) auto

lemma prop_get_Nil: "prop_get [] k = inherited k"
  by (simp add: prop_get_def)

lemma inherited_truthy: "truthy (inherited k) \<longleftrightarrow> k \<in> set Object_prototype"
  by (simp add: inherited_def)

lemma not_inherited: "k \<notin> set Object_prototype \<Longrightarrow> inherited k = JUndefined"
  by (simp add: inherited_def)

lemma default_names_not_inherited:
  "''createdAt'' \<notin> set Object_prototype" "''updatedAt'' \<notin> set Object_prototype"
  "''$set'' \<notin> set Object_prototype"
  by (simp_all add: Object_prototype_def)

lemma inherited_set_name: "inherited ''$set'' = JUndefined"
  by (simp add: not_inherited default_names_not_inherited)

lemma prop_get_Cons: "prop_get ((k', v) # ps) k = (if k = k' then v else prop_get ps k)"
  by (simp add: prop_get_def)

lemma prop_set_again:
  "k \<noteq> k' \<Longrightarrow> prop_set k v (prop_set k' v' (prop_set k v ps)) = prop_set k' v' (prop_set k v ps)"
  by (rule prop_set_same) (simp add: map_of_prop_set)

lemmas policy_defs = updateTimestamps_def getConfig'_def new_Date_def Let_def

lemmas example_defs = policy_defs reservations_def resolved_fields_def resolved_format_def
  frozen_def prop_get_Cons prop_get_Nil inherited_def Object_prototype_def

section \<open>The date formats\<close>

text \<open>Division by a positive number, as bounds that linear arithmetic can use.\<close>

lemma div_bounds:
  fixes a k :: int
  assumes "0 < k"
  shows "k * (a div k) \<le> a" and "a < k * (a div k) + k"
proof -
  have "a = k * (a div k) + a mod k" by simp
  moreover have "0 \<le> a mod k" "a mod k < k" using assms by simp_all
  ultimately show "k * (a div k) \<le> a" and "a < k * (a div k) + k" by linarith+
qed

lemma div_succ:
  fixes a k :: int
  assumes "0 < k"
  shows "(a + 1) div k = a div k + (if (a + 1) mod k = 0 then 1 else 0)"
proof -
  have a: "a = k * (a div k) + a mod k" by simp
  have r: "0 \<le> a mod k" "a mod k < k" using assms by simp_all
  show ?thesis
  proof (cases "a mod k + 1 = k")
    case True
    have "a + 1 = k * (a div k) + (a mod k + 1)" by simp
    also have "\<dots> = k * (a div k + 1) + 0" using True by (simp add: algebra_simps)
    finally have e: "a + 1 = k * (a div k + 1) + 0" .
    from int_div_pos_eq [OF e _ assms] int_mod_pos_eq [OF e _ assms]
    show ?thesis by simp
  next
    case False
    with r have lt: "a mod k + 1 < k" by simp
    from a have e: "a + 1 = k * (a div k) + (a mod k + 1)" by simp
    have nn: "0 \<le> a mod k + 1" using r by simp
    from int_div_pos_eq [OF e nn lt] int_mod_pos_eq [OF e nn lt] r
    show ?thesis by simp
  qed
qed

subsection \<open>The year\<close>

lemma DayFromYear_step: "DayFromYear (y + 1) = DayFromYear y + DaysInYear y"
proof -
  have m4: "(y - 1969 + 1) mod 4 = y mod 4"
    using mod_mult_self2 [of y 4 "- 492"] by simp
  have m100: "(y - 1901 + 1) mod 100 = y mod 100"
    using mod_mult_self2 [of y 100 "- 19"] by simp
  have m400: "(y - 1601 + 1) mod 400 = y mod 400"
    using mod_mult_self2 [of y 400 "- 4"] by simp
  have s4: "(y + 1 - 1969) div 4 = (y - 1969) div 4 + (if y mod 4 = 0 then 1 else 0)"
    using div_succ [of 4 "y - 1969"] m4 by (simp add: algebra_simps)
  have s100: "(y + 1 - 1901) div 100 = (y - 1901) div 100 + (if y mod 100 = 0 then 1 else 0)"
    using div_succ [of 100 "y - 1901"] m100 by (simp add: algebra_simps)
  have s400: "(y + 1 - 1601) div 400 = (y - 1601) div 400 + (if y mod 400 = 0 then 1 else 0)"
    using div_succ [of 400 "y - 1601"] m400 by (simp add: algebra_simps)
  have d1: "y mod 100 = 0 \<Longrightarrow> y mod 4 = 0"
    by (simp add: mod_eq_0_iff_dvd) (rule dvd_trans [of 4 100 y], simp_all)
  have d2: "y mod 400 = 0 \<Longrightarrow> y mod 100 = 0"
    by (simp add: mod_eq_0_iff_dvd) (rule dvd_trans [of 100 400 y], simp_all)
  show ?thesis
    unfolding DayFromYear_def DaysInYear_def s4 s100 s400
    using d1 d2 by auto
qed

lemma DaysInYear_bounds: "365 \<le> DaysInYear y" "DaysInYear y \<le> 366"
  by (simp_all add: DaysInYear_def)

lemma DayFromYear_mono: "y \<le> z \<Longrightarrow> DayFromYear y \<le> DayFromYear z"
proof (induction z rule: int_ge_induct)
  case base
  show ?case by simp
next
  case (step i)
  with DayFromYear_step [of i] DaysInYear_bounds(1) [of i] show ?case by simp
qed

lemma DayFromYear_less: "DayFromYear y < DayFromYear (y + 1)"
  using DayFromYear_step [of y] DaysInYear_bounds(1) [of y] by simp

lemma estimate_low: "DayFromYear (1970 + (400 * d) div 146097 - 1) \<le> d"
proof -
  define e where "e = (400 * d) div 146097"
  define q4 q100 q400 where "q4 = e div 4" and "q100 = (e + 68) div 100" and "q400 = (e + 368) div 400"
  have "146097 * e \<le> 400 * d"
    unfolding e_def by (rule div_bounds) simp
  moreover have "4 * q4 \<le> e" "e + 68 < 100 * q100 + 100" "400 * q400 \<le> e + 368"
    unfolding q4_def q100_def q400_def by (rule div_bounds, simp)+
  ultimately have "365 * e - 365 + q4 - q100 + q400 \<le> d"
    by linarith
  then have "365 * (e - 1) + e div 4 - (e + 68) div 100 + (e + 368) div 400 \<le> d"
    by (simp add: q4_def q100_def q400_def algebra_simps)
  then show ?thesis
    by (simp add: DayFromYear_def e_def algebra_simps)
qed

lemma estimate_high: "d < DayFromYear (1970 + (400 * d) div 146097 + 2)"
proof -
  define e where "e = (400 * d) div 146097"
  define q4 q100 q400 where "q4 = (e + 3) div 4" and "q100 = (e + 71) div 100"
    and "q400 = (e + 371) div 400"
  have "400 * d < 146097 * e + 146097"
    unfolding e_def by (rule div_bounds) simp
  moreover have "e + 3 < 4 * q4 + 4" "100 * q100 \<le> e + 71" "e + 371 < 400 * q400 + 400"
    unfolding q4_def q100_def q400_def by (rule div_bounds, simp)+
  ultimately have "d < 365 * e + 730 + q4 - q100 + q400"
    by linarith
  then have "d < 365 * (e + 2) + (e + 3) div 4 - (e + 71) div 100 + (e + 371) div 400"
    by (simp add: q4_def q100_def q400_def algebra_simps)
  then show ?thesis
    by (simp add: DayFromYear_def e_def algebra_simps)
qed

text \<open>\<open>YearFromDay d\<close> is the largest year that begins on or before day \<open>d\<close>.\<close>

lemma YearFromDay_spec:
  "DayFromYear (YearFromDay d) \<le> d \<and> d < DayFromYear (YearFromDay d + 1)"
  using estimate_low [of d] estimate_high [of d]
  by (auto simp add: YearFromDay_def Let_def algebra_simps)

lemma YearFromDay_largest: "DayFromYear y \<le> d \<Longrightarrow> y \<le> YearFromDay d"
proof (rule ccontr)
  assume a: "DayFromYear y \<le> d" and "\<not> y \<le> YearFromDay d"
  then have "YearFromDay d + 1 \<le> y" by simp
  from DayFromYear_mono [OF this] YearFromDay_spec [of d] a show False by simp
qed

subsection \<open>Month, day of the month and time of the day\<close>

lemma DayWithinYear_bounds:
  "0 \<le> DayWithinYear t" "DayWithinYear t < DaysInYear (YearFromTime t)"
  using YearFromDay_spec [of "Day t"] DayFromYear_step [of "YearFromTime t"]
  by (simp_all add: DayWithinYear_def YearFromTime_def)

lemma InLeapYear_eq: "InLeapYear t = DaysInYear (YearFromTime t) - 365"
  by (simp add: InLeapYear_def DaysInYear_def)

lemma MonthFromTime_bounds: "0 \<le> MonthFromTime t" "MonthFromTime t \<le> 11"
  by (simp_all add: MonthFromTime_def Let_def)

lemma DateFromTime_eq:
  "DateFromTime t = DayWithinYear t - MonthStart (InLeapYear t) (MonthFromTime t) + 1"
  by (simp add: DateFromTime_def MonthStart_def Let_def)

lemma MonthStart_bounds:
  "MonthStart (InLeapYear t) (MonthFromTime t) \<le> DayWithinYear t"
  "DayWithinYear t < MonthStart (InLeapYear t) (MonthFromTime t) + 31"
  using DayWithinYear_bounds [of t] DaysInYear_bounds [of "YearFromTime t"]
  by (simp_all add: MonthFromTime_def MonthStart_def InLeapYear_eq Let_def)

lemma DateFromTime_bounds: "1 \<le> DateFromTime t" "DateFromTime t \<le> 31"
  using MonthStart_bounds [of t] by (simp_all add: DateFromTime_eq)

lemma MakeDay_fields: "MakeDay (YearFromTime t) (MonthFromTime t) (DateFromTime t) = Day t"
  by (simp add: MakeDay_def DateFromTime_eq InLeapYear_eq DayWithinYear_def)

lemma time_fields:
  "Day t * msPerDay + MakeTime (HourFromTime t) (MinFromTime t) (SecFromTime t) (msFromTime t) = t"
proof -
  define a b c D where "a = t div 1000" and "b = a div 60" and "c = b div 60" and "D = c div 24"
  define ms s mi h where "ms = t mod 1000" and "s = a mod 60" and "mi = b mod 60"
    and "h = c mod 24"
  have b: "b = t div 60000"
    using zdiv_zmult2_eq [of 60 t 1000] by (simp add: a_def b_def)
  have c: "c = t div 3600000"
    using zdiv_zmult2_eq [of 60 t 60000] by (simp add: b c_def)
  have D: "D = t div 86400000"
    using zdiv_zmult2_eq [of 24 t 3600000] by (simp add: c D_def)
  have "t = 1000 * a + ms" "a = 60 * b + s" "b = 60 * c + mi" "c = 24 * D + h"
    by (simp_all add: a_def b_def c_def D_def ms_def s_def mi_def h_def)
  then have "D * 86400000 + (h * 3600000 + mi * 60000 + s * 1000 + ms) = t"
    by linarith
  then show ?thesis
    unfolding Day_def msPerDay_def MakeTime_def HourFromTime_def MinFromTime_def
      SecFromTime_def msFromTime_def ms_def s_def mi_def h_def a_def b c D .
qed

lemma MakeDate_fields:
  "MakeDate (MakeDay (YearFromTime t) (MonthFromTime t) (DateFromTime t))
     (MakeTime (HourFromTime t) (MinFromTime t) (SecFromTime t) (msFromTime t)) = t"
  by (simp add: MakeDate_def MakeDay_fields time_fields)

subsection \<open>Digits\<close>

lemma digit_index: "i < 10 \<Longrightarrow> digit_value (''0123456789'' ! i) = int i \<and> is_digit (''0123456789'' ! i)"
  by (auto simp add: less_Suc_eq numeral_eq_Suc digit_value_def is_digit_def)

lemma digit_props: "digit_value (digit k) = k mod 10" "is_digit (digit k)"
proof -
  have "nat (k mod 10) < 10" by simp
  from digit_index [OF this] show "digit_value (digit k) = k mod 10" "is_digit (digit k)"
    by (simp_all add: digit_def)
qed

lemma number_from_append: "number_from a (xs @ ys) = number_from (number_from a xs) ys"
  by (induction xs arbitrary: a) auto

text \<open>The equation for \<open>padded 0\<close> would rewrite for ever; it is used through the two
  cases below.\<close>

lemma padded_0:
  "k \<le> 0 \<Longrightarrow> padded 0 k = []"
  "0 < k \<Longrightarrow> padded 0 k = padded 0 (k div 10) @ [digit k]"
  by simp_all

declare padded.simps(1) [simp del]

lemma div_10_bounds:
  fixes k :: int
  assumes "0 \<le> k"
  shows "0 \<le> k div 10" and "k < 10 * p \<Longrightarrow> k div 10 < p"
proof -
  define q where "q = k div 10"
  have "10 * q \<le> k" "k < 10 * q + 10"
    unfolding q_def by (rule div_bounds, simp)+
  with assms show "0 \<le> k div 10" and "k < 10 * p \<Longrightarrow> k div 10 < p"
    unfolding q_def [symmetric] by linarith+
qed

lemma number_from_padded: "0 \<le> k \<Longrightarrow> number_from 0 (padded w k) = k"
proof (induction w k rule: padded.induct)
  case (1 k)
  show ?case
  proof (cases "k \<le> 0")
    case True
    with 1 show ?thesis by (simp add: padded_0)
  next
    case False
    with 1 div_10_bounds(1) [of k] have "number_from 0 (padded 0 (k div 10)) = k div 10"
      by simp
    with False show ?thesis
      by (simp add: padded_0 number_from_append digit_props)
  qed
next
  case (2 w k)
  with div_10_bounds(1) [of k] have "number_from 0 (padded w (k div 10)) = k div 10"
    by simp
  then show ?case
    by (simp add: number_from_append digit_props)
qed

lemma number_of_padded: "0 \<le> k \<Longrightarrow> number_of (padded w k) = k"
  by (simp add: number_of_def number_from_padded)

lemma digits_padded: "list_all is_digit (padded w k)"
proof (induction w k rule: padded.induct)
  case (1 k)
  then show ?case by (cases "k \<le> 0") (simp_all add: padded_0 digit_props)
next
  case (2 w k)
  then show ?case by (simp add: digit_props)
qed

lemma length_padded: "0 \<le> k \<Longrightarrow> k < 10 ^ w \<Longrightarrow> length (padded w k) = w"
proof (induction w arbitrary: k)
  case 0
  then show ?case by (simp add: padded_0)
next
  case (Suc w)
  from Suc.prems div_10_bounds(1) [of k] div_10_bounds(2) [of k "10 ^ w"] have "0 \<le> k div 10" "k div 10 < 10 ^ w"
    by simp_all
  with Suc.IH show ?case by simp
qed

subsection \<open>The ISO string reads back as the instant\<close>

lemma Date_parse_fields:
  assumes "length Y = 4" "length M = 2" "length D = 2" "length H = 2" "length Mi = 2"
    "length S = 2" "length Ms = 3"
    and "list_all is_digit Y" "list_all is_digit M" "list_all is_digit D" "list_all is_digit H"
    "list_all is_digit Mi" "list_all is_digit S" "list_all is_digit Ms"
  shows "Date_parse (Y @ ''-'' @ M @ ''-'' @ D @ ''T'' @ H @ '':'' @ Mi @ '':'' @ S @ ''.'' @ Ms @ ''Z'')
    = Some (MakeDate (MakeDay (number_of Y) (number_of M - 1) (number_of D))
              (MakeTime (number_of H) (number_of Mi) (number_of S) (number_of Ms)))"
  using assms by (simp add: Date_parse_def nth_append)

lemma time_bounds:
  "0 \<le> HourFromTime t" "HourFromTime t < 24" "0 \<le> MinFromTime t" "MinFromTime t < 60"
  "0 \<le> SecFromTime t" "SecFromTime t < 60" "0 \<le> msFromTime t" "msFromTime t < 1000"
  by (simp_all add: HourFromTime_def MinFromTime_def SecFromTime_def msFromTime_def)

lemma DayFromYear_less_imp: "DayFromYear y < DayFromYear z \<Longrightarrow> y < z"
  using DayFromYear_mono [of z y] by (cases "y < z") simp_all

lemma YearFromTime_range:
  assumes "- 62167219200000 \<le> t" "t \<le> 253402300799999"
  shows "0 \<le> YearFromTime t" "YearFromTime t \<le> 9999"
proof -
  define d where "d = Day t"
  have b: "86400000 * d \<le> t" "t < 86400000 * d + 86400000"
    unfolding d_def Day_def msPerDay_def by (rule div_bounds, simp)+
  with assms have lo: "DayFromYear 0 \<le> d" and hi: "d < DayFromYear 10000"
    by (simp_all add: DayFromYear_def)
  from YearFromDay_largest [OF lo] show "0 \<le> YearFromTime t"
    by (simp add: YearFromTime_def d_def)
  from YearFromDay_spec [of d] hi have "DayFromYear (YearFromDay d) < DayFromYear 10000"
    by simp
  from DayFromYear_less_imp [OF this] show "YearFromTime t \<le> 9999"
    by (simp add: YearFromTime_def d_def)
qed

lemma toISOString_parse:
  assumes "- 62167219200000 \<le> t" "t \<le> 253402300799999"
  shows "Date_parse (toISOString t) = Some t"
proof -
  note y = YearFromTime_range [OF assms]
  note m = MonthFromTime_bounds [of t] and d = DateFromTime_bounds [of t] and h = time_bounds [of t]
  have len: "length (padded 4 (YearFromTime t)) = 4" "length (padded 2 (MonthFromTime t + 1)) = 2"
    "length (padded 2 (DateFromTime t)) = 2" "length (padded 2 (HourFromTime t)) = 2"
    "length (padded 2 (MinFromTime t)) = 2" "length (padded 2 (SecFromTime t)) = 2"
    "length (padded 3 (msFromTime t)) = 3"
    using y m d h by (simp_all add: length_padded)
  have num: "number_of (padded 4 (YearFromTime t)) = YearFromTime t"
    "number_of (padded 2 (MonthFromTime t + 1)) = MonthFromTime t + 1"
    "number_of (padded 2 (DateFromTime t)) = DateFromTime t"
    "number_of (padded 2 (HourFromTime t)) = HourFromTime t"
    "number_of (padded 2 (MinFromTime t)) = MinFromTime t"
    "number_of (padded 2 (SecFromTime t)) = SecFromTime t"
    "number_of (padded 3 (msFromTime t)) = msFromTime t"
    using y m d h by (simp_all add: number_of_padded)
  have "toISOString t = padded 4 (YearFromTime t) @ ''-'' @ padded 2 (MonthFromTime t + 1)
      @ ''-'' @ padded 2 (DateFromTime t) @ ''T'' @ padded 2 (HourFromTime t)
      @ '':'' @ padded 2 (MinFromTime t) @ '':'' @ padded 2 (SecFromTime t)
      @ ''.'' @ padded 3 (msFromTime t) @ ''Z''"
    using y by (simp add: toISOString_def Let_def)
  then show ?thesis
    using Date_parse_fields [OF len digits_padded digits_padded digits_padded digits_padded
        digits_padded digits_padded digits_padded]
    by (simp only: num add_diff_cancel_right' MakeDate_fields)
qed

subsection \<open>The UTC string reads back as the instant, to the second\<close>

lemma month_cases:
  fixes m :: int
  assumes "0 \<le> m" "m \<le> 11"
  shows "m = 0 \<or> m = 1 \<or> m = 2 \<or> m = 3 \<or> m = 4 \<or> m = 5 \<or> m = 6 \<or> m = 7 \<or> m = 8
    \<or> m = 9 \<or> m = 10 \<or> m = 11"
  using assms by arith

lemma month_name_props:
  assumes "0 \<le> m" "m \<le> 11"
  shows "length (month_name m) = 3" "month_number (month_name m) = Some m"
  using month_cases [OF assms]
  by (auto simp add: month_name_def month_number_def)

lemma weekday_name_length: "length (weekday_name (WeekDay t)) = 3"
proof -
  have "0 \<le> WeekDay t" "WeekDay t < 7" by (simp_all add: WeekDay_def)
  then have "WeekDay t = 0 \<or> WeekDay t = 1 \<or> WeekDay t = 2 \<or> WeekDay t = 3 \<or> WeekDay t = 4
    \<or> WeekDay t = 5 \<or> WeekDay t = 6" by arith
  then show ?thesis by (auto simp add: weekday_name_def)
qed

lemma UTC_parse_fields:
  assumes "length W = 3" "length D = 2" "length M = 3" "length Y = 4" "length H = 2"
    "length Mi = 2" "length S = 2"
    and "list_all is_digit D" "list_all is_digit Y" "list_all is_digit H"
    "list_all is_digit Mi" "list_all is_digit S"
  shows "UTC_parse (W @ '', '' @ D @ '' '' @ M @ '' '' @ Y @ '' '' @ H @ '':'' @ Mi @ '':'' @ S @ '' GMT'')
    = (case month_number M of
         None \<Rightarrow> None
       | Some m \<Rightarrow>
           (let t = MakeDate (MakeDay (number_of Y) m (number_of D))
                      (MakeTime (number_of H) (number_of Mi) (number_of S) 0)
            in if weekday_name (WeekDay t) = W then Some t else None))"
  using assms by (simp add: UTC_parse_def nth_append Let_def split: option.split)

lemma whole_seconds:
  "MakeDate (MakeDay (YearFromTime t) (MonthFromTime t) (DateFromTime t))
     (MakeTime (HourFromTime t) (MinFromTime t) (SecFromTime t) 0) = t - msFromTime t"
  using MakeDate_fields [of t] by (simp add: MakeDate_def MakeTime_def)

lemma Day_whole_seconds: "Day (t - msFromTime t) = Day t"
proof -
  define r where "r = MakeTime (HourFromTime t) (MinFromTime t) (SecFromTime t) 0"
  have "t - msFromTime t = msPerDay * Day t + r"
    using time_fields [of t] by (simp add: r_def MakeTime_def algebra_simps)
  moreover have "0 \<le> r" "r < msPerDay"
    using time_bounds [of t] by (simp_all add: r_def MakeTime_def msPerDay_def)
  ultimately show ?thesis
    unfolding Day_def [of "t - msFromTime t"] by (rule int_div_pos_eq)
qed

lemma toUTCString_parse:
  assumes "- 62167219200000 \<le> t" "t \<le> 253402300799999"
  shows "UTC_parse (toUTCString t) = Some (t - msFromTime t)"
proof -
  note y = YearFromTime_range [OF assms]
  note m = MonthFromTime_bounds [of t] and d = DateFromTime_bounds [of t] and h = time_bounds [of t]
  have len: "length (weekday_name (WeekDay t)) = 3" "length (padded 2 (DateFromTime t)) = 2"
    "length (month_name (MonthFromTime t)) = 3" "length (padded 4 (YearFromTime t)) = 4"
    "length (padded 2 (HourFromTime t)) = 2"
    "length (padded 2 (MinFromTime t)) = 2" "length (padded 2 (SecFromTime t)) = 2"
    using y m d h by (simp_all add: length_padded weekday_name_length month_name_props)
  have num: "number_of (padded 4 (YearFromTime t)) = YearFromTime t"
    "number_of (padded 2 (DateFromTime t)) = DateFromTime t"
    "number_of (padded 2 (HourFromTime t)) = HourFromTime t"
    "number_of (padded 2 (MinFromTime t)) = MinFromTime t"
    "number_of (padded 2 (SecFromTime t)) = SecFromTime t"
    using y m d h by (simp_all add: number_of_padded)
  have "toUTCString t = weekday_name (WeekDay t) @ '', '' @ padded 2 (DateFromTime t)
      @ '' '' @ month_name (MonthFromTime t) @ '' '' @ padded 4 (YearFromTime t)
      @ '' '' @ padded 2 (HourFromTime t) @ '':'' @ padded 2 (MinFromTime t)
      @ '':'' @ padded 2 (SecFromTime t) @ '' GMT''"
    using y by (simp add: toUTCString_def Let_def)
  then show ?thesis
    using UTC_parse_fields [OF len digits_padded digits_padded digits_padded digits_padded
        digits_padded] month_name_props(2) [OF m]
    by (simp add: num whole_seconds WeekDay_def Day_whole_seconds)
qed

text \<open>
  Claim C7. For every instant \<open>T\<close>: \<open>Millis\<close> yields the integer \<open>T\<close>; \<open>Unix\<close> yields
  the integer \<open>floor(T / 1000)\<close>, which is the quotient of the integer division of \<open>T\<close>
  by 1000; \<open>Date\<close> yields the date object itself; \<open>ISODate\<close> yields the platform's ISO
  string for \<open>T\<close>, and \<open>Utc\<close> its UTC string. For the years 0 to 9999 the ISO string
  has the 24 characters of \<open>YYYY-MM-DDTHH:mm:ss.sssZ\<close> and reads back as \<open>T\<close> to the
  millisecond, and the UTC string \<open>Www, DD Mon YYYY HH:mm:ss GMT\<close> reads back as \<open>T\<close>
  to the second, with the weekday that belongs to the date.
\<close>

theorem formatDate_per_format:
  "formatDate T Millis = JNum (of_int T)
   \<and> formatDate T Unix = JNum (of_int (T div 1000))
   \<and> formatDate T Date = JObj (DateObject T) []
   \<and> formatDate T ISODate = JStr (toISOString T)
   \<and> formatDate T Utc = JStr (toUTCString T)
   \<and> (- 62167219200000 \<le> T \<and> T \<le> 253402300799999 \<longrightarrow>
        length (toISOString T) = 24
        \<and> Date_parse (toISOString T) = Some T
        \<and> UTC_parse (toUTCString T) = Some (1000 * (T div 1000)))"
proof -
  have fl: "\<lfloor>real_of_int T / 1000\<rfloor> = T div 1000"
    using floor_divide_of_int_eq [of T 1000, where ?'a = real] by simp
  have ms: "T - msFromTime T = 1000 * (T div 1000)"
    by (simp add: msFromTime_def algebra_simps minus_mod_eq_mult_div)
  have len: "length (toISOString T) = 24" if "Date_parse (toISOString T) = Some T"
    using that by (simp add: Date_parse_def split: if_splits)
  show ?thesis
    using toISOString_parse [of T] toUTCString_parse [of T] len
    by (simp add: fl ms)
qed

text \<open>The instant of the examples in the comment on \<open>_formatDate\<close>.\<close>

theorem formatDate_per_format_witness:
  "formatDate 1670213692618 ISODate = JStr ''2022-12-05T04:14:52.618Z''
   \<and> Date_parse ''2022-12-05T04:14:52.618Z'' = Some 1670213692618
   \<and> formatDate 1670213692618 Utc = JStr ''Mon, 05 Dec 2022 04:14:52 GMT''
   \<and> UTC_parse ''Mon, 05 Dec 2022 04:14:52 GMT'' = Some 1670213692000
   \<and> formatDate 1670213692618 Unix = JNum 1670213692
   \<and> formatDate 1670213692618 Millis = JNum 1670213692618"
proof -
  have "toISOString 1670213692618 = ''2022-12-05T04:14:52.618Z''"
    by code_simp
  moreover have "toUTCString 1670213692618 = ''Mon, 05 Dec 2022 04:14:52 GMT''"
    by code_simp
  ultimately show ?thesis
    using formatDate_per_format [of 1670213692618] by simp
qed

section \<open>Configuration resolution\<close>

text \<open>
  Claim C9. \<open>_getConfig\<close> raises exactly when the child class gives no \<open>getConfig\<close>, and
  what it raises is the configuration error; with a configuration, \<open>getDbName\<close> raises
  exactly when the database slot holds neither a name nor a \<open>Db\<close> handle, and what it
  raises is the type mismatch error; in every other case the resolution returns (the
  configuration, or the database's name).
\<close>

theorem configuration_resolution_raises_exactly:
  "((\<exists>e. getConfig' getConfig = Inl e) \<longleftrightarrow> getConfig = None)
   \<and> (getConfig' getConfig = Inl ConfigurationError \<longleftrightarrow> getConfig = None)
   \<and> ((\<exists>c. getConfig' getConfig = Inr c) \<longleftrightarrow> getConfig \<noteq> None)
   \<and> getDbName None = Inl ConfigurationError
   \<and> ((\<exists>e. getDbName (Some config) = Inl e)
        \<longleftrightarrow> (\<forall>s. database config \<noteq> DbName s) \<and> (\<forall>d. database config \<noteq> DbInstance d))
   \<and> (getDbName (Some config) = Inl TypeMismatchError
        \<longleftrightarrow> (\<forall>s. database config \<noteq> DbName s) \<and> (\<forall>d. database config \<noteq> DbInstance d))
   \<and> ((\<exists>s. getDbName (Some config) = Inr s)
        \<longleftrightarrow> (\<exists>s. database config = DbName s) \<or> (\<exists>d. database config = DbInstance d))"
  by (cases getConfig; cases "database config"; simp add: getConfig'_def getDbName_def)

section \<open>The policy when the timestamps are off\<close>

text \<open>
  Claim C5. When \<open>config.timestamps\<close> is falsy (absent or \<open>false\<close>), the policy returns
  the document or update expression it was given, for an insert as for an update, and
  does not even read the clock.
\<close>

theorem updateTimestamps_off_returns_input:
  assumes "timestamps config = None \<or> timestamps config = Some False"
  shows "updateTimestamps clock (Some config) document isInsert n = (Inr document, n)"
  using assms by (auto simp add: updateTimestamps_def getConfig'_def)

theorem updateTimestamps_off_returns_input_witness:
  "updateTimestamps (frozen 1670213692618) (Some (reservations\<lparr>timestamps := Some False\<rparr>))
     [(''name'', JStr ''John Doe'')] True 0 = (Inr [(''name'', JStr ''John Doe'')], 0)
   \<and> updateTimestamps (frozen 1670213692618) (Some (reservations\<lparr>timestamps := None\<rparr>))
     [(''$set'', JObj PlainObject [(''name'', JStr ''John Doe'')])] False 0
       = (Inr [(''$set'', JObj PlainObject [(''name'', JStr ''John Doe'')])], 0)"
  using updateTimestamps_off_returns_input [of "reservations\<lparr>timestamps := Some False\<rparr>"
      "frozen 1670213692618" "[(''name'', JStr ''John Doe'')]" True 0]
    updateTimestamps_off_returns_input [of "reservations\<lparr>timestamps := None\<rparr>"
      "frozen 1670213692618" "[(''$set'', JObj PlainObject [(''name'', JStr ''John Doe'')])]" False 0]
  by (simp add: reservations_def)

section \<open>The update expression's \<open>$set\<close> record\<close>

text \<open>
  Claim C4. With the timestamps on, an update expression whose \<open>$set\<close> is missing (or
  falsy) gets a fresh \<open>$set\<close> record, and the updated field is written into it, set to
  the formatted reading of the clock: the fresh record then holds that field alone. (The
  one exception is an updated field named like a member of \<open>Object.prototype\<close>, which the
  fresh record inherits: the record is created and stays empty.) In particular, with the
  default field names, the empty update expression becomes
  \<open>{ $set: { updatedAt: formattedNow } }\<close>.
\<close>

theorem updateTimestamps_creates_set_record:
  assumes "timestamps config = Some True"
  shows "(updatedAt (resolved_fields config) = Some u \<and> u \<noteq> []
            \<and> \<not> truthy (prop_get update ''$set'') \<longrightarrow>
          updateTimestamps clock (Some config) update False n =
            (Inr (prop_set ''$set''
                    (JObj PlainObject
                       (if u \<in> set Object_prototype then []
                        else [(u, formatDate (clock n) (resolved_format config))]))
                    update), Suc n))
       \<and> (timestampsFields config = None \<longrightarrow>
          updateTimestamps clock (Some config) [] False n =
            (Inr [(''$set'', JObj PlainObject
                     [(''updatedAt'', formatDate (clock n) (resolved_format config))])], Suc n))"
proof -
  have general: "updateTimestamps clock (Some config) d False n =
      (Inr (prop_set ''$set''
              (JObj PlainObject
                 (if w \<in> set Object_prototype then []
                  else [(w, formatDate (clock n) (resolved_format config))])) d), Suc n)"
    if "updatedAt (resolved_fields config) = Some w" "w \<noteq> []"
      "\<not> truthy (prop_get d ''$set'')" for w d
    using assms that
    by (simp add: policy_defs prop_get_prop_set prop_get_Nil prop_set_twice inherited_truthy
        split: option.split)
  have "updatedAt (resolved_fields config) = Some ''updatedAt''"
    if "timestampsFields config = None"
    using that by (simp add: resolved_fields_def)
  from general [OF this, of "[]"] have "timestampsFields config = None \<longrightarrow>
      updateTimestamps clock (Some config) [] False n =
        (Inr [(''$set'', JObj PlainObject
                 [(''updatedAt'', formatDate (clock n) (resolved_format config))])], Suc n)"
    by (simp add: prop_get_Nil inherited_set_name default_names_not_inherited)
  with general show ?thesis by blast
qed

theorem updateTimestamps_creates_set_record_witness:
  "updateTimestamps (frozen 1670213692618) (Some reservations) [] False 0 =
     (Inr [(''$set'', JObj PlainObject [(''updatedAt'', JNum 1670213692618)])], 1)
   \<and> updateTimestamps (frozen 1670213692618) (Some reservations)
        [(''$inc'', JObj PlainObject [(''visits'', JNum 1)]), (''$set'', JNull)] False 0 =
     (Inr [(''$inc'', JObj PlainObject [(''visits'', JNum 1)]),
           (''$set'', JObj PlainObject [(''updatedAt'', JNum 1670213692618)])], 1)"
  using updateTimestamps_creates_set_record
      [of reservations "''updatedAt''" "[]" "frozen 1670213692618" 0]
    updateTimestamps_creates_set_record
      [of reservations "''updatedAt''"
        "[(''$inc'', JObj PlainObject [(''visits'', JNum 1)]), (''$set'', JNull)]"
        "frozen 1670213692618" 0]
  by (simp add: reservations_def resolved_fields_def resolved_format_def frozen_def
      prop_get_Cons prop_get_Nil inherited_def Object_prototype_def)

text \<open>The exception at work: the updated field is called \<open>toString\<close>.\<close>

lemma updateTimestamps_inherited_name_in_set_record:
  "updateTimestamps (frozen 1670213692618)
     (Some (reservations\<lparr>timestampsFields :=
              Some \<lparr>createdAt = Some ''createdAt'', updatedAt = Some ''toString''\<rparr>\<rparr>))
     [] False 0
     = (Inr [(''$set'', JObj PlainObject [])], 1)"
  by (simp add: example_defs)

section \<open>Values the caller supplied\<close>

text \<open>
  The policy tests \<open>!document[field]\<close>, so a value the caller supplied is kept only when
  it is truthy. Here the caller supplied \<open>createdAt: 0\<close>, and the insert replaces it by
  the reading of the clock.
\<close>

theorem updateTimestamps_overwrites_falsy_value:
  "updateTimestamps (frozen 1670213692618) (Some reservations) [(''createdAt'', JNum 0)] True 0
     = (Inr [(''createdAt'', JNum 1670213692618), (''updatedAt'', JNum 1670213692618)], 1)"
  by (simp add: example_defs)

text \<open>
  Claim C1, amended. With the timestamps on, a truthy value that the caller supplied
  under a resolved timestamp field name is left as it is: on an insert, the document
  still holds it under the created (or updated) field name; on an update whose \<open>$set\<close>
  record holds it under the updated field name, the update expression comes back
  unchanged.
\<close>

theorem updateTimestamps_keeps_truthy_value:
  assumes "timestamps config = Some True"
  shows "((createdAt (resolved_fields config) = Some f \<or> updatedAt (resolved_fields config) = Some f)
            \<and> map_of document f = Some v \<and> truthy v \<longrightarrow>
          (\<exists>d'. updateTimestamps clock (Some config) document True n = (Inr d', Suc n)
                \<and> map_of d' f = Some v))
       \<and> (updatedAt (resolved_fields config) = Some f
            \<and> map_of update ''$set'' = Some (JObj c ps) \<and> map_of ps f = Some v \<and> truthy v \<longrightarrow>
          updateTimestamps clock (Some config) update False n = (Inr update, Suc n))"
proof (intro conjI impI)
  assume a: "(createdAt (resolved_fields config) = Some f \<or> updatedAt (resolved_fields config) = Some f)
            \<and> map_of document f = Some v \<and> truthy v"
  then have t: "truthy (prop_get document f)" by (simp add: prop_get_def)
  show "\<exists>d'. updateTimestamps clock (Some config) document True n = (Inr d', Suc n)
                \<and> map_of d' f = Some v"
    using assms a t
    by (auto simp add: policy_defs map_of_prop_set prop_get_prop_set split: option.split)
next
  assume a: "updatedAt (resolved_fields config) = Some f
            \<and> map_of update ''$set'' = Some (JObj c ps) \<and> map_of ps f = Some v \<and> truthy v"
  then have "prop_get update ''$set'' = JObj c ps" "truthy (prop_get ps f)"
    by (simp_all add: prop_get_def)
  then show "updateTimestamps clock (Some config) update False n = (Inr update, Suc n)"
    using assms a
    by (auto simp add: policy_defs split: option.split)
qed

theorem updateTimestamps_keeps_truthy_value_witness:
  "(\<exists>d'. updateTimestamps (frozen 1670213692618) (Some reservations)
            [(''createdAt'', JNum 42)] True 0 = (Inr d', 1)
        \<and> map_of d' ''createdAt'' = Some (JNum 42))
   \<and> updateTimestamps (frozen 1670213692618) (Some reservations)
        [(''$set'', JObj PlainObject [(''updatedAt'', JNum 42)])] False 0
       = (Inr [(''$set'', JObj PlainObject [(''updatedAt'', JNum 42)])], 1)"
  using updateTimestamps_keeps_truthy_value
      [where config = reservations and f = "''createdAt''" and v = "JNum 42"
         and document = "[(''createdAt'', JNum 42)]" and clock = "frozen 1670213692618" and n = 0]
    updateTimestamps_keeps_truthy_value
      [where config = reservations and f = "''updatedAt''" and v = "JNum 42"
         and update = "[(''$set'', JObj PlainObject [(''updatedAt'', JNum 42)])]"
         and c = PlainObject and ps = "[(''updatedAt'', JNum 42)]"
         and clock = "frozen 1670213692618" and n = 0]
  by (simp add: reservations_def resolved_fields_def)

section \<open>The names of the timestamp fields\<close>

text \<open>
  \<open>timestampsFields || {...}\<close> puts the default in for the whole object only. A
  configuration that names the created field alone leaves the updated field without a
  name, and an insert into the empty document sets the created field only.
\<close>

theorem updateTimestamps_missing_name_not_defaulted:
  "updateTimestamps (frozen 1670213692618)
     (Some (reservations\<lparr>timestampsFields := Some \<lparr>createdAt = Some ''created'', updatedAt = None\<rparr>\<rparr>))
     [] True 0
     = (Inr [(''created'', JNum 1670213692618)], 1)"
  by (simp add: example_defs)

text \<open>
  Claim C2, amended. With the timestamps on, the field names are those of
  \<open>config.timestampsFields\<close> taken as a whole: \<open>createdAt\<close> and \<open>updatedAt\<close> when the
  configuration has no \<open>timestampsFields\<close>, and the entries of \<open>timestampsFields\<close> as they
  are when it has. A name the configuration leaves out is not defaulted: with the
  created name alone an insert stamps that field only and an update stamps nothing;
  with the updated name alone an insert stamps that field only.
\<close>

theorem timestampsFields_defaulted_as_a_whole:
  assumes "timestamps config = Some True"
  shows "(timestampsFields config = None \<longrightarrow>
            resolved_fields config = \<lparr>createdAt = Some ''createdAt'', updatedAt = Some ''updatedAt''\<rparr>)
       \<and> (timestampsFields config = Some f \<longrightarrow> resolved_fields config = f)
       \<and> (timestampsFields config = Some \<lparr>createdAt = Some c, updatedAt = None\<rparr> \<longrightarrow>
            updateTimestamps clock (Some config) document True n =
              (Inr (if c \<noteq> [] \<and> \<not> truthy (prop_get document c)
                    then prop_set c (formatDate (clock n) (resolved_format config)) document
                    else document), Suc n)
            \<and> updateTimestamps clock (Some config) document False n = (Inr document, Suc n))
       \<and> (timestampsFields config = Some \<lparr>createdAt = None, updatedAt = Some u\<rparr> \<longrightarrow>
            updateTimestamps clock (Some config) document True n =
              (Inr (if u \<noteq> [] \<and> \<not> truthy (prop_get document u)
                    then prop_set u (formatDate (clock n) (resolved_format config)) document
                    else document), Suc n))"
  using assms
  by (auto simp add: policy_defs resolved_fields_def)

theorem timestampsFields_defaulted_as_a_whole_witness:
  "resolved_fields reservations = \<lparr>createdAt = Some ''createdAt'', updatedAt = Some ''updatedAt''\<rparr>
   \<and> updateTimestamps (frozen 1670213692618)
       (Some (reservations\<lparr>timestampsFields := Some \<lparr>createdAt = None, updatedAt = Some ''modified''\<rparr>\<rparr>))
       [(''name'', JStr ''John Doe'')] True 0
       = (Inr [(''name'', JStr ''John Doe''), (''modified'', JNum 1670213692618)], 1)
   \<and> updateTimestamps (frozen 1670213692618)
       (Some (reservations\<lparr>timestampsFields := Some \<lparr>createdAt = Some ''created'', updatedAt = None\<rparr>\<rparr>))
       [] False 0
       = (Inr [], 1)"
  using timestampsFields_defaulted_as_a_whole [where config = reservations]
    timestampsFields_defaulted_as_a_whole
      [where config = "reservations\<lparr>timestampsFields := Some \<lparr>createdAt = None, updatedAt = Some ''modified''\<rparr>\<rparr>"
         and u = "''modified''" and document = "[(''name'', JStr ''John Doe'')]"
         and clock = "frozen 1670213692618" and n = 0]
    timestampsFields_defaulted_as_a_whole
      [where config = "reservations\<lparr>timestampsFields := Some \<lparr>createdAt = Some ''created'', updatedAt = None\<rparr>\<rparr>"
         and c = "''created''" and document = "[]"
         and clock = "frozen 1670213692618" and n = 0]
  by (simp add: reservations_def resolved_format_def frozen_def prop_get_Cons prop_get_Nil
      inherited_def Object_prototype_def)

section \<open>Inserting a document without timestamps\<close>



text \<open>A created field called \<open>constructor\<close>: the empty document inherits a member of
  that name, the guard finds it, and only the updated field is set.\<close>

lemma updateTimestamps_inherited_name_not_stamped:
  "updateTimestamps (frozen 1670213692618)
     (Some (reservations\<lparr>timestampsFields :=
              Some \<lparr>createdAt = Some ''constructor'', updatedAt = Some ''updatedAt''\<rparr>\<rparr>))
     [] True 0
     = (Inr [(''updatedAt'', JNum 1670213692618)], 1)"
  by (simp add: example_defs)

section \<open>The fields the policy leaves alone\<close>

text \<open>
  Claim C10. The policy changes nothing but the timestamp fields. On an insert it
  returns a document in which every key other than the resolved created and updated
  field names has the value it had. On an update, every top-level key other than
  \<open>$set\<close> has the value it had, and so has every key under \<open>$set\<close> other than the
  resolved updated field name; the one case in which an update returns no expression is
  a \<open>$set\<close> that holds a truthy value which is not an object, where the write throws.
\<close>

theorem updateTimestamps_frame:
  "(createdAt (resolved_fields config) \<noteq> Some k \<and> updatedAt (resolved_fields config) \<noteq> Some k \<longrightarrow>
      (\<exists>d'. fst (updateTimestamps clock (Some config) document True n) = Inr d'
            \<and> map_of d' k = map_of document k))
   \<and> (case fst (updateTimestamps clock (Some config) document False n) of
        Inr d' \<Rightarrow>
          (k \<noteq> ''$set'' \<longrightarrow> map_of d' k = map_of document k)
          \<and> (updatedAt (resolved_fields config) \<noteq> Some k \<longrightarrow>
               set_record d' k = set_record document k)
      | Inl e \<Rightarrow>
          e = TypeError \<and> truthy (prop_get document ''$set'')
          \<and> (\<forall>c ps. prop_get document ''$set'' \<noteq> JObj c ps))"
proof (intro conjI impI)
  assume "createdAt (resolved_fields config) \<noteq> Some k \<and> updatedAt (resolved_fields config) \<noteq> Some k"
  then show "\<exists>d'. fst (updateTimestamps clock (Some config) document True n) = Inr d'
            \<and> map_of d' k = map_of document k"
    by (auto simp add: policy_defs map_of_prop_set split: option.split)
next
  show "case fst (updateTimestamps clock (Some config) document False n) of
        Inr d' \<Rightarrow>
          (k \<noteq> ''$set'' \<longrightarrow> map_of d' k = map_of document k)
          \<and> (updatedAt (resolved_fields config) \<noteq> Some k \<longrightarrow>
               set_record d' k = set_record document k)
      | Inl e \<Rightarrow>
          e = TypeError \<and> truthy (prop_get document ''$set'')
          \<and> (\<forall>c ps. prop_get document ''$set'' \<noteq> JObj c ps)"
    by (auto simp add: policy_defs map_of_prop_set prop_get_prop_set set_record_def prop_get_def
        inherited_set_name split: option.split jsval.split)
qed

text \<open>The write that throws: an update expression whose \<open>$set\<close> is a number.\<close>

lemma updateTimestamps_primitive_set_raises:
  "updateTimestamps (frozen 1670213692618) (Some reservations) [(''$set'', JNum 1)] False 0
     = (Inl TypeError, 1)"
  by (simp add: example_defs)

theorem updateTimestamps_frame_witness:
  "(\<exists>d'. fst (updateTimestamps (frozen 1670213692618) (Some reservations)
              [(''name'', JStr ''John Doe''), (''createdAt'', JNum 0)] True 0) = Inr d'
        \<and> map_of d' ''name'' = Some (JStr ''John Doe''))
   \<and> (\<exists>d'. fst (updateTimestamps (frozen 1670213692618) (Some reservations)
              [(''$set'', JObj PlainObject [(''name'', JStr ''John Doe'')])] False 0) = Inr d'
        \<and> set_record d' ''name'' = Some (JStr ''John Doe''))"
proof -
  have frame: "createdAt (resolved_fields reservations) \<noteq> Some ''name''
      \<and> updatedAt (resolved_fields reservations) \<noteq> Some ''name''"
    by (simp add: reservations_def resolved_fields_def)
  have "\<exists>d'. fst (updateTimestamps (frozen 1670213692618) (Some reservations)
              [(''name'', JStr ''John Doe''), (''createdAt'', JNum 0)] True 0) = Inr d'
        \<and> map_of d' ''name'' = Some (JStr ''John Doe'')"
    using frame updateTimestamps_frame
      [where config = reservations and k = "''name''" and clock = "frozen 1670213692618" and n = 0
         and document = "[(''name'', JStr ''John Doe''), (''createdAt'', JNum 0)]"]
    by simp
  moreover have "\<exists>d'. fst (updateTimestamps (frozen 1670213692618) (Some reservations)
              [(''$set'', JObj PlainObject [(''name'', JStr ''John Doe'')])] False 0) = Inr d'
        \<and> set_record d' ''name'' = Some (JStr ''John Doe'')"
    using frame updateTimestamps_frame
      [where config = reservations and k = "''name''" and clock = "frozen 1670213692618" and n = 0
         and document = "[(''$set'', JObj PlainObject [(''name'', JStr ''John Doe'')])]"]
    by (auto simp add: set_record_def prop_get_Cons split: sum.splits)
  ultimately show ?thesis by blast
qed

section \<open>Applying the policy twice\<close>

text \<open>
  Claim C6. When a call of the policy has returned a document and the clock shows the
  same time again, a second call on that document returns it unchanged: applying the
  policy twice is applying it once.
\<close>

theorem updateTimestamps_idempotent:
  assumes "updateTimestamps clock getConfig document isInsert n = (Inr d1, n1)"
    and "clock n1 = clock n"
  shows "fst (updateTimestamps clock getConfig d1 isInsert n1) = Inr d1"
proof (cases getConfig)
  case None
  with assms show ?thesis by (simp add: policy_defs)
next
  case (Some config)
  show ?thesis
  proof (cases "timestamps config = Some True")
    case False
    with assms Some show ?thesis by (simp add: policy_defs)
  next
    case on: True
    show ?thesis
    proof (cases isInsert)
      case True
      with assms Some on show ?thesis
        apply (simp add: policy_defs split: option.splits if_splits)
        apply (auto simp add: prop_get_prop_set prop_set_twice prop_set_again)
        done
    next
      case False
      with assms Some on show ?thesis
        apply (simp add: policy_defs split: option.splits if_splits jsval.splits)
        apply (auto simp add: prop_get_prop_set prop_set_twice prop_set_again)
        done
    qed
  qed
qed

theorem updateTimestamps_idempotent_witness:
  "fst (updateTimestamps (frozen 1670213692618) (Some reservations)
          [(''createdAt'', JNum 1670213692618), (''updatedAt'', JNum 1670213692618)] True 1)
     = Inr [(''createdAt'', JNum 1670213692618), (''updatedAt'', JNum 1670213692618)]
   \<and> fst (updateTimestamps (frozen 0) (Some reservations)
          [(''$set'', JObj PlainObject [(''updatedAt'', JNum 0)])] False 1)
     = Inr [(''$set'', JObj PlainObject [(''updatedAt'', JNum 0)])]"
proof -
  have insert_once: "updateTimestamps (frozen 1670213692618) (Some reservations) [] True 0
      = (Inr [(''createdAt'', JNum 1670213692618), (''updatedAt'', JNum 1670213692618)], 1)"
    by (simp add: example_defs)
  have update_once: "updateTimestamps (frozen 0) (Some reservations) [] False 0
      = (Inr [(''$set'', JObj PlainObject [(''updatedAt'', JNum 0)])], 1)"
    by (simp add: example_defs)
  have still: "frozen t 1 = frozen t 0" for t
    by (simp add: frozen_def)
  from updateTimestamps_idempotent [OF insert_once still]
    updateTimestamps_idempotent [OF update_once still]
  show ?thesis by simp
qed

section \<open>insertMany applies the policy to each element\<close>

lemma insert_returns:
  "\<exists>d'. updateTimestamps clock (Some config) d True n = (Inr d', n + readings config)"
  by (simp add: policy_defs readings_def split: option.split)

lemma off_any_count:
  "timestamps config \<noteq> Some True \<Longrightarrow>
     fst (updateTimestamps clock (Some config) d isInsert n)
       = fst (updateTimestamps clock (Some config) d isInsert m)"
  by (simp add: policy_defs)

lemma at_insert:
  "\<exists>d'. updateTimestamps clock (Some config) (h r) True n = (Inr d', n + readings config)
      \<and> updateTimestamps_at clock (Some config) r True h n
          = (Inr r, h(r := d'), n + readings config)"
  using insert_returns [of clock config "h r" n]
  by (auto simp add: updateTimestamps_at_def)

text \<open>With a configuration the loop never raises, returns the references it was given
  and reads the clock once per element when the timestamps are on.\<close>

lemma map_returns:
  "\<exists>h'. map_updateTimestamps clock (Some config) rs h n
           = (Inr rs, h', n + readings config * length rs)"
proof (induction rs arbitrary: h n)
  case Nil
  show ?case by simp
next
  case (Cons r rs)
  obtain d' where s: "updateTimestamps_at clock (Some config) r True h n
      = (Inr r, h(r := d'), n + readings config)"
    using at_insert by blast
  obtain h' where "map_updateTimestamps clock (Some config) rs (h(r := d')) (n + readings config)
      = (Inr rs, h', n + readings config + readings config * length rs)"
    using Cons.IH by blast
  with s show ?case by (simp add: algebra_simps)
qed

lemma map_untouched:
  "map_updateTimestamps clock (Some config) rs h n = (res, h', n') \<Longrightarrow> r \<notin> set rs
     \<Longrightarrow> h' r = h r"
proof (induction rs arbitrary: h n res h' n')
  case Nil
  then show ?case by simp
next
  case (Cons a rs)
  obtain d' where s: "updateTimestamps_at clock (Some config) a True h n
      = (Inr a, h(a := d'), n + readings config)"
    using at_insert by blast
  obtain h2 where m: "map_updateTimestamps clock (Some config) rs (h(a := d')) (n + readings config)
      = (Inr rs, h2, n + readings config + readings config * length rs)"
    using map_returns by blast
  from Cons.prems s m have "h' = h2" by simp
  with Cons.IH [OF m] Cons.prems(2) show ?case by simp
qed

lemma map_distinct:
  "distinct rs \<Longrightarrow> map_updateTimestamps clock (Some config) rs h n = (res, h', n')
     \<Longrightarrow> i < length rs
     \<Longrightarrow> fst (updateTimestamps clock (Some config) (h (rs ! i)) True (n + i)) = Inr (h' (rs ! i))"
proof (induction rs arbitrary: h n i res h' n')
  case Nil
  then show ?case by simp
next
  case (Cons a rs)
  obtain d' where u: "updateTimestamps clock (Some config) (h a) True n
      = (Inr d', n + readings config)"
    and s: "updateTimestamps_at clock (Some config) a True h n
      = (Inr a, h(a := d'), n + readings config)"
    using at_insert by blast
  obtain h2 where m: "map_updateTimestamps clock (Some config) rs (h(a := d')) (n + readings config)
      = (Inr rs, h2, n + readings config + readings config * length rs)"
    using map_returns by blast
  from Cons.prems(2) s m have h2: "h' = h2" by simp
  show ?case
  proof (cases i)
    case 0
    have "h2 a = (h(a := d')) a"
      using map_untouched [OF m] Cons.prems(1) by simp
    with u h2 0 show ?thesis by simp
  next
    case (Suc j)
    with Cons.prems have j: "j < length rs" and ne: "rs ! j \<noteq> a" by auto
    from Cons.prems(1) have "distinct rs" by simp
    from Cons.IH [OF this m j]
    have ih: "fst (updateTimestamps clock (Some config) (h (rs ! j)) True
        (n + readings config + j)) = Inr (h2 (rs ! j))"
      using ne by simp
    have "fst (updateTimestamps clock (Some config) (h (rs ! j)) True (n + readings config + j))
        = fst (updateTimestamps clock (Some config) (h (rs ! j)) True (n + Suc j))"
    proof (cases "timestamps config = Some True")
      case True
      then show ?thesis by (simp add: readings_def)
    next
      case False
      then show ?thesis by (rule off_any_count)
    qed
    with ih h2 Suc show ?thesis by simp
  qed
qed

lemma map_append:
  "map_updateTimestamps clock g (xs @ ys) h n =
     (case map_updateTimestamps clock g xs h n of
        (Inl e, h', n') \<Rightarrow> (Inl e, h', n')
      | (Inr xs', h', n') \<Rightarrow>
          (case map_updateTimestamps clock g ys h' n' of
             (Inl e, h'', n'') \<Rightarrow> (Inl e, h'', n'')
           | (Inr ys', h'', n'') \<Rightarrow> (Inr (xs' @ ys'), h'', n'')))"
  by (induction xs arbitrary: h n) (auto split: prod.splits sum.splits)

text \<open>\<open>insertMany\<close> is the loop, then the collection, then the call.\<close>

lemma insertMany_after_loop:
  assumes "map_updateTimestamps clock (Some config) rs h n = (Inr rs, h', n')"
  shows "insertMany clock drv (Some config) rs options h n =
     (case getCollection drv (Some config) of
        Inl e \<Rightarrow> (Inl e, h', n')
      | Inr collection \<Rightarrow> (Inr (InsertManyCall collection rs options), h', n'))"
  using assms by (simp add: insertMany_def)

text \<open>
  Claim C8. \<open>insertMany\<close> applies the insert policy to each element of the list and
  then hands the list to the driver. Whenever the collection resolves, for every list:
  the driver is called with the very references the caller gave, in their order, and
  documents that are not in the list are not touched; on the empty list nothing
  changes; and the call on the first \<open>i + 1\<close> elements leaves the heap as the call on the
  first \<open>i\<close> elements leaves it, but for element \<open>i\<close>, which holds what the policy makes,
  at the next reading of the clock, of the document found there. So when no object
  stands twice in the list, every element ends up as the policy makes it from the
  document the caller passed, with that element's own reading of the clock.
\<close>

theorem insertMany_applies_policy_to_each:
  assumes "getCollection drv (Some config) = Inr collection"
  shows "(\<exists>h' n'.
           insertMany clock drv (Some config) documents options h n =
             (Inr (InsertManyCall collection documents options), h', n')
         \<and> (\<forall>r. r \<notin> set documents \<longrightarrow> h' r = h r)
         \<and> (distinct documents \<longrightarrow>
              (\<forall>i<length documents.
                 fst (updateTimestamps clock (Some config) (h (documents ! i)) True (n + i))
                   = Inr (h' (documents ! i)))))
       \<and> insertMany clock drv (Some config) [] options h n =
             (Inr (InsertManyCall collection [] options), h, n)
       \<and> (\<forall>i<length documents. \<exists>hi ni d' nj.
             insertMany clock drv (Some config) (take i documents) options h n
               = (Inr (InsertManyCall collection (take i documents) options), hi, ni)
           \<and> updateTimestamps clock (Some config) (hi (documents ! i)) True ni = (Inr d', nj)
           \<and> insertMany clock drv (Some config) (take (Suc i) documents) options h n
               = (Inr (InsertManyCall collection (take (Suc i) documents) options),
                  hi(documents ! i := d'), nj))"
proof -
  have after: "insertMany clock drv (Some config) rs options h n =
      (Inr (InsertManyCall collection rs options), h', n')"
    if "map_updateTimestamps clock (Some config) rs h n = (Inr rs, h', n')" for rs h' n'
    using insertMany_after_loop [OF that, of drv options] assms by simp
  obtain h' where m: "map_updateTimestamps clock (Some config) documents h n
      = (Inr documents, h', n + readings config * length documents)"
    using map_returns by blast
  have untouched: "\<forall>r. r \<notin> set documents \<longrightarrow> h' r = h r"
    using map_untouched [OF m] by blast
  have each: "distinct documents \<longrightarrow>
      (\<forall>i<length documents.
         fst (updateTimestamps clock (Some config) (h (documents ! i)) True (n + i))
           = Inr (h' (documents ! i)))"
    using map_distinct [OF _ m] by blast
  have whole: "\<exists>h' n'.
           insertMany clock drv (Some config) documents options h n =
             (Inr (InsertManyCall collection documents options), h', n')
         \<and> (\<forall>r. r \<notin> set documents \<longrightarrow> h' r = h r)
         \<and> (distinct documents \<longrightarrow>
              (\<forall>i<length documents.
                 fst (updateTimestamps clock (Some config) (h (documents ! i)) True (n + i))
                   = Inr (h' (documents ! i))))"
    using after [OF m] untouched each by blast
  have on_empty: "insertMany clock drv (Some config) [] options h n =
      (Inr (InsertManyCall collection [] options), h, n)"
    by (rule after) simp
  have steps: "\<exists>hi ni d' nj.
        insertMany clock drv (Some config) (take i documents) options h n
          = (Inr (InsertManyCall collection (take i documents) options), hi, ni)
      \<and> updateTimestamps clock (Some config) (hi (documents ! i)) True ni = (Inr d', nj)
      \<and> insertMany clock drv (Some config) (take (Suc i) documents) options h n
          = (Inr (InsertManyCall collection (take (Suc i) documents) options),
             hi(documents ! i := d'), nj)"
    if i: "i < length documents" for i
  proof -
    obtain hi where p: "map_updateTimestamps clock (Some config) (take i documents) h n
        = (Inr (take i documents), hi, n + readings config * length (take i documents))"
      using map_returns by blast
    obtain d' where u: "updateTimestamps clock (Some config) (hi (documents ! i)) True
          (n + readings config * length (take i documents))
        = (Inr d', n + readings config * length (take i documents) + readings config)"
      using insert_returns by blast
    have "map_updateTimestamps clock (Some config) (take (Suc i) documents) h n
        = (Inr (take (Suc i) documents), hi(documents ! i := d'),
           n + readings config * length (take i documents) + readings config)"
      using i p u by (simp add: take_Suc_conv_app_nth map_append updateTimestamps_at_def)
    from after [OF p] u after [OF this] show ?thesis by blast
  qed
  from steps have all_steps: "\<forall>i<length documents. \<exists>hi ni d' nj.
        insertMany clock drv (Some config) (take i documents) options h n
          = (Inr (InsertManyCall collection (take i documents) options), hi, ni)
      \<and> updateTimestamps clock (Some config) (hi (documents ! i)) True ni = (Inr d', nj)
      \<and> insertMany clock drv (Some config) (take (Suc i) documents) options h n
          = (Inr (InsertManyCall collection (take (Suc i) documents) options),
             hi(documents ! i := d'), nj)"
    by blast
  from whole on_empty all_steps show ?thesis
    by (intro conjI)
qed

lemma mongodb_reservations:
  "getCollection mongodb (Some reservations) =
     Inr \<lparr>db = \<lparr>db_client = None, databaseName = ''example''\<rparr>, collectionName = ''reservations''\<rparr>"
  by (simp add: getCollection_def getDb_def getDbName_def getCollectionName_def getConfig'_def
      reservations_def mongodb_def mongodb_client_db_def mongodb_db_collection_def
      validateDatabaseName_def checkCollectionName_def)


theorem insertMany_applies_policy_to_each_witness:
  "(\<exists>h' n'.
      insertMany (ticking 1670213692618) mongodb (Some reservations) [0, 1] () blank 0
        = (Inr (InsertManyCall
                  \<lparr>db = \<lparr>db_client = None, databaseName = ''example''\<rparr>,
                     collectionName = ''reservations''\<rparr> [0, 1] ()), h', n')
    \<and> h' 2 = []
    \<and> h' 0 = [(''createdAt'', JNum 1670213692618), (''updatedAt'', JNum 1670213692618)]
    \<and> h' 1 = [(''createdAt'', JNum 1670213692619), (''updatedAt'', JNum 1670213692619)])
   \<and> (\<exists>h' n'.
      insertMany (ticking 1670213692618) mongodb (Some reservations) [0, 0] () blank 0
        = (Inr (InsertManyCall
                  \<lparr>db = \<lparr>db_client = None, databaseName = ''example''\<rparr>,
                     collectionName = ''reservations''\<rparr> [0, 0] ()), h', n')
    \<and> h' 0 = [(''createdAt'', JNum 1670213692618), (''updatedAt'', JNum 1670213692618)])"
proof -
  let ?c = "\<lparr>db = \<lparr>db_client = None, databaseName = ''example''\<rparr>,
              collectionName = ''reservations''\<rparr>"
  let ?stamped = "[(''createdAt'', JNum 1670213692618), (''updatedAt'', JNum 1670213692618)]"
  note defs = policy_defs reservations_def resolved_fields_def resolved_format_def
    ticking_def blank_def prop_get_Cons prop_get_Nil inherited_def Object_prototype_def
  have first: "\<exists>h' n'.
      insertMany (ticking 1670213692618) mongodb (Some reservations) [0, 1] () blank 0
        = (Inr (InsertManyCall ?c [0, 1] ()), h', n')
    \<and> h' 2 = []
    \<and> h' 0 = ?stamped
    \<and> h' 1 = [(''createdAt'', JNum 1670213692619), (''updatedAt'', JNum 1670213692619)]"
  proof -
    from insertMany_applies_policy_to_each
        [OF mongodb_reservations, of "ticking 1670213692618" "[0, 1]" "()" blank 0]
    obtain h' n' where
      call: "insertMany (ticking 1670213692618) mongodb (Some reservations) [0, 1] () blank 0
         = (Inr (InsertManyCall ?c [0, 1] ()), h', n')"
      and untouched: "\<forall>r. r \<notin> set [0, 1] \<longrightarrow> h' r = blank r"
      and each: "distinct [0::nat, 1] \<longrightarrow>
        (\<forall>i<length [0::nat, 1].
           fst (updateTimestamps (ticking 1670213692618) (Some reservations) (blank ([0, 1] ! i))
                  True (0 + i)) = Inr (h' ([0, 1] ! i)))"
      by blast
    from untouched have "h' 2 = []"
      by (simp add: blank_def)
    moreover from each have
      "fst (updateTimestamps (ticking 1670213692618) (Some reservations) (blank 0) True 0)
         = Inr (h' 0)"
      "fst (updateTimestamps (ticking 1670213692618) (Some reservations) (blank 1) True 1)
         = Inr (h' 1)"
      by auto
    then have "h' 0 = ?stamped"
      "h' 1 = [(''createdAt'', JNum 1670213692619), (''updatedAt'', JNum 1670213692619)]"
      by (simp_all add: defs)
    ultimately show ?thesis using call by blast
  qed
  have second: "\<exists>h' n'.
      insertMany (ticking 1670213692618) mongodb (Some reservations) [0, 0] () blank 0
        = (Inr (InsertManyCall ?c [0, 0] ()), h', n')
    \<and> h' 0 = ?stamped"
  proof -
    note t = insertMany_applies_policy_to_each
        [OF mongodb_reservations, of "ticking 1670213692618" "[0, 0]" "()" blank 0]
    from t have on_empty:
      "insertMany (ticking 1670213692618) mongodb (Some reservations) [] () blank 0
         = (Inr (InsertManyCall ?c [] ()), blank, 0)"
      by blast
    from t have steps: "\<forall>i<length [0::nat, 0]. \<exists>hi ni d' nj.
        insertMany (ticking 1670213692618) mongodb (Some reservations) (take i [0, 0]) () blank 0
          = (Inr (InsertManyCall ?c (take i [0, 0]) ()), hi, ni)
      \<and> updateTimestamps (ticking 1670213692618) (Some reservations) (hi ([0, 0] ! i)) True ni
          = (Inr d', nj)
      \<and> insertMany (ticking 1670213692618) mongodb (Some reservations) (take (Suc i) [0, 0]) () blank 0
          = (Inr (InsertManyCall ?c (take (Suc i) [0, 0]) ()), hi(([0, 0] ! i) := d'), nj)"
      by blast
    from steps [rule_format, of 0] on_empty
    obtain d' nj where
      "updateTimestamps (ticking 1670213692618) (Some reservations) (blank 0) True 0 = (Inr d', nj)"
      and one: "insertMany (ticking 1670213692618) mongodb (Some reservations) [0] () blank 0
          = (Inr (InsertManyCall ?c [0] ()), blank(0 := d'), nj)"
      by auto
    then have d': "d' = ?stamped" "nj = 1"
      by (simp_all add: defs)
    from steps [rule_format, of 1] one d'
    obtain d2 nj2 where
      "updateTimestamps (ticking 1670213692618) (Some reservations) ?stamped True 1 = (Inr d2, nj2)"
      and two: "insertMany (ticking 1670213692618) mongodb (Some reservations) [0, 0] () blank 0
          = (Inr (InsertManyCall ?c [0, 0] ()), (blank(0 := ?stamped))(0 := d2), nj2)"
      by auto
    then have "d2 = ?stamped"
      by (simp add: defs)
    with two show ?thesis by simp
  qed
  from first second show ?thesis by blast
qed

text \<open>When the driver refuses the collection, the documents have been stamped and
  nothing is forwarded: here the collection's name is empty.\<close>

lemma insertMany_collection_refused:
  assumes "getCollection drv (Some config) = Inl e"
  shows "\<exists>h' n'. insertMany clock drv (Some config) documents options h n = (Inl e, h', n')
    \<and> map_updateTimestamps clock (Some config) documents h n = (Inr documents, h', n')"
proof -
  obtain h' where m: "map_updateTimestamps clock (Some config) documents h n
      = (Inr documents, h', n + readings config * length documents)"
    using map_returns by blast
  from insertMany_after_loop [OF m, of drv options] assms m show ?thesis by simp
qed

lemma insertMany_empty_collection_name:
  "\<exists>h'. insertMany (ticking 1670213692618) mongodb (Some (reservations\<lparr>name := []\<rparr>)) [0] ()
           blank 0
         = (Inl (DriverError ''Collection names cannot be empty''), h', 1)
       \<and> h' 0 = [(''createdAt'', JNum 1670213692618), (''updatedAt'', JNum 1670213692618)]"
  by (simp add: insertMany_def updateTimestamps_at_def policy_defs reservations_def
      resolved_fields_def resolved_format_def ticking_def blank_def prop_get_Cons prop_get_Nil
      inherited_def Object_prototype_def
      getCollection_def getDb_def getDbName_def getCollectionName_def
      mongodb_def mongodb_client_db_def mongodb_db_collection_def
      validateDatabaseName_def checkCollectionName_def)

text \<open>An empty database name is the client's default database to the driver.\<close>

lemma getDb_empty_database_name:
  "getDb mongodb (Some (reservations\<lparr>database := DbName []\<rparr>))
     = Inr \<lparr>db_client = None, databaseName = ''test''\<rparr>"
  by (simp add: getDb_def getDbName_def getConfig'_def reservations_def
      mongodb_def mongodb_client_db_def validateDatabaseName_def)

text \<open>Without a configuration nothing reaches the driver.\<close>

lemma insertMany_without_configuration:
  "insertMany clock drv None documents options h n = (Inl ConfigurationError, h, n)"
  by (cases documents)
     (simp_all add: insertMany_def updateTimestamps_at_def policy_defs getCollection_def getDb_def)

end
